theory Spec2Isabelle
  imports Complex_Main
begin

section \<open>Python exceptions and numpy arrays\<close>

text \<open>
  The exception classes of Python that the modelled code can raise, and
  \<open>NotImplementedError\<close>, which the specification names. A call that raises returns
  \<open>Inl\<close> of its exception.
\<close>

datatype py_error =
    IndexError | RuntimeError | ValueError | AssertionError | AttributeError
  | UnboundLocalError | TypeError | ZeroDivisionError | NotImplementedError

text \<open>
  One-dimensional real arrays are lists, matrices are lists of rows. The linear-algebra
  primitives of scipy (\<open>_mul_vector\<close>, \<open>dot\<close>, \<open>transpose\<close>) are the dense ones.
  Floating-point rounding is not modelled: array entries are real (complex in the
  trigtech part) numbers.
\<close>

type_synonym vec = "real list"
type_synonym matrix = "real list list"

definition mul_vector :: "matrix \<Rightarrow> vec \<Rightarrow> vec" where
  "mul_vector A c = map (\<lambda>row. sum_list (map2 (*) row c)) A"

definition np_scale :: "real \<Rightarrow> vec \<Rightarrow> vec" where
  "np_scale a v = map (\<lambda>x. a * x) v"

text \<open>Addition of two one-dimensional arrays, with numpy's broadcasting of a length-one
  operand; any other length mismatch raises.\<close>

definition np_add :: "vec \<Rightarrow> vec \<Rightarrow> py_error + vec" where
  "np_add xs ys =
     (if length xs = length ys then Inr (map2 (+) xs ys)
      else if length xs = 1 then Inr (map (\<lambda>y. hd xs + y) ys)
      else if length ys = 1 then Inr (map (\<lambda>x. x + hd ys) xs)
      else Inl ValueError)"

section \<open>The deflated residual operator (newton/deflated\_residual.py)\<close>

text \<open>
  The state handed to the operator is either a wrapper object, whose attribute \<open>u\<close> is
  the function, or the raw function itself, which has no attribute \<open>u\<close>.
\<close>

datatype 'fn state = Wrapper 'fn | Raw 'fn

fun get_u :: "'fn state \<Rightarrow> py_error + 'fn" where
  "get_u (Wrapper x) = Inr x"
| "get_u (Raw x) = Inl AttributeError"

fun underlying :: "'fn state \<Rightarrow> 'fn" where
  "underlying (Wrapper x) = x"
| "underlying (Raw x) = x"

fun map_state :: "('fn \<Rightarrow> 'fn) \<Rightarrow> 'fn state \<Rightarrow> 'fn state" where
  "map_state g (Wrapper x) = Wrapper (g x)"
| "map_state g (Raw x) = Raw (g x)"

text \<open>
  The function objects (\<open>fun.Fun\<close>, \<open>h1norm\<close>, \<open>support.Functional\<close>) and the
  discretisation are not part of the sources at hand; their operations are parameters.
  Of a function, \<open>fn_size\<close> is \<open>np.product(u.shape)\<close> and \<open>fn_len\<close> is \<open>u.shape[0]\<close>.
\<close>

record 'fn fun_ops =
  h1norm :: "'fn \<Rightarrow> real"
  fn_sub :: "'fn \<Rightarrow> 'fn \<Rightarrow> 'fn"
  fn_add :: "'fn \<Rightarrow> 'fn \<Rightarrow> 'fn"
  fn_div :: "'fn \<Rightarrow> real \<Rightarrow> 'fn"
  fn_mul :: "'fn \<Rightarrow> real \<Rightarrow> 'fn"
  fn_zeros_like :: "'fn \<Rightarrow> 'fn"
  fn_size :: "'fn \<Rightarrow> nat"
  fn_len :: "'fn \<Rightarrow> nat"
  fn_prolong :: "'fn \<Rightarrow> nat \<Rightarrow> 'fn"
  mk_Functional :: "'fn \<Rightarrow> string \<Rightarrow> vec \<Rightarrow> real"

record 'fn collocation =
  c_matrix :: "matrix \<times> matrix \<times> matrix"
  c_P :: matrix
  c_rhs0 :: vec
  c_rhs :: "'fn state \<Rightarrow> vec"
  c_name :: string

record 'fn nonlinear_operator =
  discretize :: "'fn state \<Rightarrow> bool \<Rightarrow> 'fn collocation"
  n_disc :: nat

record 'fn init_kwargs =
  kw_ks :: "'fn list option"
  kw_shift :: "real option"
  kw_power :: "nat option"

record 'fn DeflatedResidual =
  dr_colloc :: "'fn collocation"
  dr_M :: matrix
  dr_P :: matrix
  dr_S :: matrix
  dr_proj :: matrix
  dr_b :: vec
  dr_MT :: "matrix option"
  known_solutions :: "'fn list"
  dr_shift :: real
  dr_power :: nat
  dr_eta :: real
  dr_functional :: "(vec \<Rightarrow> real) option"

text \<open>
  The loop of \<open>__compute_der_deflation\<close> over the known solutions. Where the norm of
  \<open>u - ks\<close> is zero the quotient \<open>1. / diff_norm**power\<close> is no real number (a Python
  float raises ZeroDivisionError, a numpy double gives \<open>inf\<close>); the model stops there.
\<close>

fun der_deflation_loop ::
  "'fn fun_ops \<Rightarrow> real \<Rightarrow> nat \<Rightarrow> 'fn \<Rightarrow> 'fn list \<Rightarrow> real \<times> 'fn \<Rightarrow> py_error + (real \<times> 'fn)" where
  "der_deflation_loop ops sh pw u [] acc = Inr acc"
| "der_deflation_loop ops sh pw u (ks # rest) (eta, function) =
     (let diff = fn_sub ops u ks;
          diff_norm = h1norm ops diff
      in if diff_norm ^ pw = 0 then Inl ZeroDivisionError
         else
           (let defl = sh + 1 / diff_norm ^ pw
            in der_deflation_loop ops sh pw u rest
                 (eta * defl,
                  fn_add ops function (fn_div ops diff (defl * diff_norm ^ (2 + pw))))))"

definition compute_der_deflation ::
  "'fn fun_ops \<Rightarrow> 'fn list \<Rightarrow> real \<Rightarrow> nat \<Rightarrow> string \<Rightarrow> 'fn
     \<Rightarrow> py_error + (real \<times> (vec \<Rightarrow> real) option)" where
  "compute_der_deflation ops kss sh pw name u =
     (if kss = [] then Inr (1, None)
      else
        (case der_deflation_loop ops sh pw u kss (1, fn_zeros_like ops u) of
           Inl e \<Rightarrow> Inl e
         | Inr (eta, function) \<Rightarrow>
             (let function1 = fn_mul ops function (- real pw * eta);
                  function2 = (if fn_len ops function1 \<noteq> fn_len ops u
                               then fn_prolong ops function1 (fn_len ops u)
                               else function1)
              in Inr (eta, Some (mk_Functional ops function2 name)))))"

text \<open>\<open>__deflation\<close>: the product of the deflation factors at \<open>u\<close>.\<close>

fun deflation_loop ::
  "'fn fun_ops \<Rightarrow> real \<Rightarrow> nat \<Rightarrow> 'fn \<Rightarrow> 'fn list \<Rightarrow> real \<Rightarrow> py_error + real" where
  "deflation_loop ops sh pw u [] eta = Inr eta"
| "deflation_loop ops sh pw u (ks # rest) eta =
     (let n = h1norm ops (fn_sub ops u ks)
      in if n ^ pw = 0 then Inl ZeroDivisionError
         else deflation_loop ops sh pw u rest (eta * (sh + 1 / n ^ pw)))"

definition deflation :: "'fn fun_ops \<Rightarrow> 'fn DeflatedResidual \<Rightarrow> 'fn \<Rightarrow> py_error + real" where
  "deflation ops self u =
     (if known_solutions self = [] then Inr 1
      else deflation_loop ops (dr_shift self) (dr_power self) u (known_solutions self) 1)"

text \<open>
  \<open>__init__\<close>. The state is prolonged (in place, in the source) when its size differs from
  the number of rows of \<open>M\<close>; the deflation data are computed from \<open>u.u\<close>, and from \<open>u\<close>
  itself when reading \<open>u.u\<close> raises AttributeError.
\<close>

definition DeflatedResidual_init ::
  "'fn fun_ops \<Rightarrow> 'fn nonlinear_operator \<Rightarrow> 'fn state \<Rightarrow> bool \<Rightarrow> 'fn init_kwargs
     \<Rightarrow> py_error + 'fn DeflatedResidual" where
  "DeflatedResidual_init ops operator u par kwargs =
     (let colloc = discretize operator u par;
          (M0, P0, S0) = c_matrix colloc;
          b0 = c_rhs0 colloc;
          u1 = (if fn_size ops (underlying u) \<noteq> length M0
                then map_state (\<lambda>x. fn_prolong ops x (n_disc operator)) u else u);
          kss = (case kw_ks kwargs of None \<Rightarrow> [] | Some l \<Rightarrow> l);
          sh = (case kw_shift kwargs of None \<Rightarrow> 1 | Some s \<Rightarrow> s);
          pw = (case kw_power kwargs of None \<Rightarrow> 2 | Some p \<Rightarrow> p);
          der = (case get_u u1 of
                   Inr x \<Rightarrow> compute_der_deflation ops kss sh pw (c_name colloc) x
                 | Inl e \<Rightarrow>
                     (if e = AttributeError
                      then compute_der_deflation ops kss sh pw (c_name colloc) (underlying u1)
                      else Inl e))
      in case der of
           Inl e \<Rightarrow> Inl e
         | Inr (eta0, functional0) \<Rightarrow>
             Inr \<lparr> dr_colloc = colloc, dr_M = M0, dr_P = P0, dr_S = S0, dr_proj = c_P colloc,
                   dr_b = (if kss \<noteq> [] then np_scale eta0 b0 else b0),
                   dr_MT = None, known_solutions = kss, dr_shift = sh, dr_power = pw,
                   dr_eta = eta0, dr_functional = functional0 \<rparr>)"

text \<open>\<open>rhs\<close>: the residual at a new state, scaled by the deflation factor at \<open>u.u\<close>.\<close>

definition rhs :: "'fn fun_ops \<Rightarrow> 'fn DeflatedResidual \<Rightarrow> 'fn state \<Rightarrow> py_error + vec" where
  "rhs ops self u =
     (let res = c_rhs (dr_colloc self) u
      in if known_solutions self = [] then Inr res
         else
           (case get_u u of
              Inl e \<Rightarrow> Inl e
            | Inr x \<Rightarrow>
                (case deflation ops self x of
                   Inl e \<Rightarrow> Inl e
                 | Inr eta \<Rightarrow> Inr (np_scale eta res))))"

text \<open>\<open>_matvec\<close>. Calling \<open>self.functional\<close> when it is None raises TypeError.\<close>

definition matvec :: "'fn DeflatedResidual \<Rightarrow> vec \<Rightarrow> py_error + vec" where
  "matvec self c =
     (if known_solutions self = [] then Inr (mul_vector (dr_M self) c)
      else
        (case dr_functional self of
           None \<Rightarrow> Inl TypeError
         | Some F \<Rightarrow>
             (let deta = F c
              in np_add (np_scale (dr_eta self) (mul_vector (dr_M self) c))
                        (np_scale deta (dr_b self)))))"

text \<open>
  \<open>_rmatvec\<close>. The transpose is stored in \<open>self.MT\<close> at the first call, whatever the mode,
  so the call returns its result together with the operator after the call.
\<close>

definition rmatvec ::
  "'fn DeflatedResidual \<Rightarrow> vec \<Rightarrow> (py_error + vec) \<times> 'fn DeflatedResidual" where
  "rmatvec self x =
     (let self1 = (if dr_MT self = None then self\<lparr>dr_MT := Some (transpose (dr_M self))\<rparr>
                   else self)
      in if known_solutions self1 = []
         then (Inr (mul_vector (the (dr_MT self1)) x), self1)
         else
           (case dr_functional self1 of
              None \<Rightarrow> (Inl TypeError, self1)
            | Some F \<Rightarrow> (Inl AssertionError, self1)))"

section \<open>The deflation preconditioner\<close>

record DeflatedResidualPrecond =
  pc_Pf :: matrix
  pc_PfT :: "matrix option"
  pc_b :: vec
  pc_ks :: nat
  pc_eta :: real
  pc_functional :: "(vec \<Rightarrow> real) option"
  pc_denom :: "real option"

definition DeflatedResidualPrecond_init ::
  "matrix \<Rightarrow> vec \<Rightarrow> nat option \<Rightarrow> real option \<Rightarrow> (vec \<Rightarrow> real) option
     \<Rightarrow> DeflatedResidualPrecond" where
  "DeflatedResidualPrecond_init Pf b0 ks0 eta0 functional0 =
     (let e = (case eta0 of None \<Rightarrow> 1 | Some v \<Rightarrow> v)
      in \<lparr> pc_Pf = Pf, pc_PfT = None, pc_b = b0,
           pc_ks = (case ks0 of None \<Rightarrow> 0 | Some k \<Rightarrow> k),
           pc_eta = e, pc_functional = functional0,
           pc_denom = (case functional0 of None \<Rightarrow> None | Some F \<Rightarrow> Some (e ^ 2 + F b0)) \<rparr>)"

text \<open>\<open>DeflatedResidual.precond\<close> builds the preconditioner of an operator.\<close>

definition precond :: "'fn DeflatedResidual \<Rightarrow> DeflatedResidualPrecond" where
  "precond self =
     DeflatedResidualPrecond_init (dr_P self) (dr_b self)
       (Some (length (known_solutions self))) (Some (dr_eta self)) (dr_functional self)"

definition pc_rmatvec ::
  "DeflatedResidualPrecond \<Rightarrow> vec \<Rightarrow> (py_error + vec) \<times> DeflatedResidualPrecond" where
  "pc_rmatvec self x =
     (let self1 = (if pc_PfT self = None then self\<lparr>pc_PfT := Some (transpose (pc_Pf self))\<rparr>
                   else self)
      in if pc_ks self1 = 0
         then (Inr (mul_vector (the (pc_PfT self1)) x), self1)
         else (Inl AssertionError, self1))"

section \<open>The trigtech representation (funpy/trig/trigtech.py)\<close>

text \<open>
  A two-dimensional complex array of shape \<open>(n, m)\<close> is the list of its \<open>n\<close> rows, each
  of \<open>m\<close> entries. A scalar or an array with one entry is a list of length one, which
  numpy broadcasts against any length.
\<close>

type_synonym carray = "complex list list"

definition n_cols :: "'a list list \<Rightarrow> nat" where
  "n_cols c = (case c of [] \<Rightarrow> 0 | r # _ \<Rightarrow> length r)"

definition rect :: "nat \<Rightarrow> nat \<Rightarrow> 'a list list \<Rightarrow> bool" where
  "rect n m c = (length c = n \<and> list_all (\<lambda>r. length r = m) c)"

definition bcast2 :: "('a \<Rightarrow> 'b \<Rightarrow> 'c) \<Rightarrow> 'a list \<Rightarrow> 'b list \<Rightarrow> py_error + 'c list" where
  "bcast2 f xs ys =
     (if length xs = length ys then Inr (map2 f xs ys)
      else if length xs = 1 then Inr (map (f (hd xs)) ys)
      else if length ys = 1 then Inr (map (\<lambda>x. f x (hd ys)) xs)
      else Inl ValueError)"

text \<open>\<open>np.max(a, axis=0)\<close> of the entries under \<open>g\<close>: it raises on an array without rows.\<close>

definition col_max :: "(complex \<Rightarrow> real) \<Rightarrow> carray \<Rightarrow> py_error + real list" where
  "col_max g a =
     (case a of
        [] \<Rightarrow> Inl ValueError
      | r # rs \<Rightarrow> Inr (foldl (map2 max) (map g r) (map (map g) rs)))"

text \<open>\<open>np.max(a)\<close> of all entries under \<open>g\<close>: it raises on an array without entries.\<close>

definition all_max :: "(complex \<Rightarrow> real) \<Rightarrow> carray \<Rightarrow> py_error + real" where
  "all_max g a =
     (case concat a of
        [] \<Rightarrow> Inl ValueError
      | z # zs \<Rightarrow> Inr (foldl max (g z) (map g zs)))"

text \<open>\<open>a[:, flags] = np.real(a[:, flags])\<close>: the boolean index must have one flag for
  each column.\<close>

definition force_real :: "carray \<Rightarrow> bool list \<Rightarrow> py_error + carray" where
  "force_real a flags =
     (if list_all (\<lambda>r. length r = length flags) a
      then Inr (map (\<lambda>r. map2 (\<lambda>z fl. if fl then complex_of_real (Re z) else z) r flags) a)
      else Inl IndexError)"

text \<open>
  The transforms, the chopping rule, the coefficient simplification, the prolongation
  of \<open>trig_simplify\<close> and the quadrature weights are imported from modules that are not
  among the sources; they are parameters.
\<close>

record externals =
  coeffs2vals :: "carray \<Rightarrow> carray"
  vals2coeffs :: "carray \<Rightarrow> carray"
  standardChopCmplx :: "complex list \<Rightarrow> real \<Rightarrow> int"
  simplify_coeffs :: "carray \<Rightarrow> bool list \<Rightarrow> real \<Rightarrow> carray \<times> carray"
  ts_prolong :: "carray \<Rightarrow> nat \<Rightarrow> bool list \<Rightarrow> carray \<times> carray"
  quadwts :: "nat \<Rightarrow> real list"

text \<open>The field \<open>vals\<close> is the attribute \<open>values\<close>.\<close>

record trigtech =
  maxLength :: nat
  eps :: real
  hscale :: real
  vscale :: real
  ishappy :: bool
  isReal :: "bool list"
  coeffs :: carray
  vals :: carray

record tt_kwargs =
  kw_eps :: "real option"
  kw_hscale :: "real option"
  kw_vscale :: "real option"
  kw_ishappy :: "bool option"
  kw_isReal :: "bool list option"

definition no_kwargs :: tt_kwargs where
  "no_kwargs = \<lparr> kw_eps = None, kw_hscale = None, kw_vscale = None, kw_ishappy = None,
                  kw_isReal = None \<rparr>"

text \<open>The first lines of \<open>__init__\<close>, before the case distinction on the arguments.\<close>

definition trigtech_base :: "tt_kwargs \<Rightarrow> trigtech" where
  "trigtech_base kw =
     (let e = (case kw_eps kw of None \<Rightarrow> 1 / 10 ^ 10 | Some v \<Rightarrow> v)
      in \<lparr> maxLength = 4096, eps = e,
           hscale = (case kw_hscale kw of None \<Rightarrow> e | Some v \<Rightarrow> v),
           vscale = (case kw_vscale kw of None \<Rightarrow> e | Some v \<Rightarrow> v),
           ishappy = (case kw_ishappy kw of None \<Rightarrow> False | Some h \<Rightarrow> h),
           isReal = (case kw_isReal kw of None \<Rightarrow> [False] | Some r \<Rightarrow> r),
           coeffs = [], vals = [] \<rparr>)"

definition get_vscale :: "externals \<Rightarrow> trigtech \<Rightarrow> py_error + real list" where
  "get_vscale ext self =
     (if concat (coeffs self) = [] then Inr [0]
      else if length (coeffs self) = 1 then Inr (map cmod (hd (coeffs self)))
      else col_max cmod (coeffs2vals ext (coeffs self)))"

definition get_isreal :: "trigtech \<Rightarrow> real list \<Rightarrow> py_error + bool list" where
  "get_isreal self vscl =
     (case col_max (\<lambda>z. \<bar>Im z\<bar>) (vals self) of
        Inl e \<Rightarrow> Inl e
      | Inr mx \<Rightarrow> bcast2 (\<lambda>a v. a \<le> 3 * eps self * v) mx vscl)"

text \<open>
  \<open>trigtech(coeffs=c, **kwargs)\<close>, the branch of \<open>__init__\<close> taken by \<open>diff\<close> and
  \<open>cumsum\<close>: no values are passed, so they are computed from the coefficients; the
  representation is marked happy whatever \<open>ishappy\<close> was passed. The branch is modelled
  in two steps: the arrays and the flag \<open>ishappy\<close> (lines 81 to 95), then the real flags
  (lines 97 to 104).
\<close>

definition of_coeffs_arrays :: "externals \<Rightarrow> carray \<Rightarrow> tt_kwargs \<Rightarrow> trigtech" where
  "of_coeffs_arrays ext c kw =
     (let self0 = (trigtech_base kw)\<lparr>coeffs := c\<rparr>;
          self1 = (if concat (vals self0) = []
                   then self0\<lparr>vals := coeffs2vals ext (coeffs self0)\<rparr> else self0);
          self2 = (if concat (coeffs self1) = []
                   then self1\<lparr>coeffs := vals2coeffs ext (vals self1)\<rparr> else self1)
      in self2\<lparr>ishappy := True\<rparr>)"

definition mark_real :: "externals \<Rightarrow> trigtech \<Rightarrow> py_error + trigtech" where
  "mark_real ext self =
     (case get_vscale ext self of
        Inl e \<Rightarrow> Inl e
      | Inr vs \<Rightarrow>
          (case get_isreal self (map (max (vscale self)) vs) of
             Inl e \<Rightarrow> Inl e
           | Inr flags \<Rightarrow>
               (case force_real (vals self) flags of
                  Inl e \<Rightarrow> Inl e
                | Inr v \<Rightarrow> Inr (self\<lparr>isReal := flags, vals := v\<rparr>))))"

definition trigtech_of_coeffs :: "externals \<Rightarrow> carray \<Rightarrow> tt_kwargs \<Rightarrow> py_error + trigtech" where
  "trigtech_of_coeffs ext c kw = mark_real ext (of_coeffs_arrays ext c kw)"

text \<open>\<open>const_index\<close>: the row of the zero-frequency coefficient.\<close>

definition const_index :: "trigtech \<Rightarrow> nat" where
  "const_index self =
     (let n = length (coeffs self)
      in if n mod 2 \<noteq> 0 then (n + 1) div 2 - 1 else n div 2)"

subsection \<open>Differentiation\<close>

text \<open>\<open>np.arange(a, b)\<close> with unit step.\<close>

definition arange :: "real \<Rightarrow> real \<Rightarrow> real list" where
  "arange a b = map (\<lambda>j. a + real j) [0..<nat \<lceil>b - a\<rceil>]"

definition waveNumber :: "nat \<Rightarrow> real list" where
  "waveNumber m =
     (if odd m then arange (- ((real m - 1) / 2)) (real m / 2)
      else arange (- (real m / 2)) (real m / 2))"

definition scale_rows :: "carray \<Rightarrow> complex list \<Rightarrow> carray" where
  "scale_rows c facs = map2 (\<lambda>row fac. map (\<lambda>z. z * fac) row) c facs"

definition diff_coeffs :: "carray \<Rightarrow> nat \<Rightarrow> carray" where
  "diff_coeffs c n =
     scale_rows c (map (\<lambda>k. (\<i> * complex_of_real pi * complex_of_real k) ^ n)
                       (waveNumber (length c)))"

definition diff :: "externals \<Rightarrow> trigtech \<Rightarrow> nat \<Rightarrow> py_error + trigtech" where
  "diff ext f n =
     trigtech_of_coeffs ext (diff_coeffs (coeffs f) n) (no_kwargs\<lparr>kw_ishappy := Some (ishappy f)\<rparr>)"

subsection \<open>Antiderivative\<close>

definition zero_row :: "carray \<Rightarrow> nat \<Rightarrow> carray" where
  "zero_row c i = c[i := map (\<lambda>_. 0) (c ! i)]"

text \<open>Lines 622 to 634 of \<open>cumsum\<close>: the row that is tested, or the exception.\<close>

definition cumsum_check :: "trigtech \<Rightarrow> py_error + nat" where
  "cumsum_check f =
     (let n = length (coeffs f);
          ind = (if n mod 2 = 0 then n div 2 + 1 else (n + 1) div 2)
      in if \<not> ind < n then Inl IndexError
         else if (if list_ex (\<lambda>z. cmod z \<noteq> 0) (coeffs f ! ind) then 1 else 0)
                   > 10 * vscale f * eps f
         then Inl RuntimeError
         else Inr ind)"

text \<open>The writes into \<open>f.coeffs\<close> itself (lines 637 to 645): \<open>c\<close> is the same array object
  until \<open>np.vstack\<close> or the product with the integration factor makes a new one.\<close>

definition cumsum_inplace :: "carray \<Rightarrow> carray" where
  "cumsum_inplace c =
     (let n = length c
      in if n mod 2 = 0
         then (let c1 = zero_row c (n div 2) in c1[0 := map (\<lambda>z. (1 / 2) * z) (c1 ! 0)])
         else zero_row c ((n + 1) div 2))"

text \<open>The new coefficient array (lines 637 to 665), from the array after the writes.\<close>

definition cumsum_coeffs :: "carray \<Rightarrow> nat \<Rightarrow> carray" where
  "cumsum_coeffs c m =
     (let n = length c;
          isEven = (n mod 2 = 0);
          cm = cumsum_inplace c;
          c2 = (if isEven then cm @ [cm ! 0] else cm);
          highestDegree = (if isEven then n div 2 else (n - 1) div 2);
          sumIndices = map (\<lambda>j. int j - int highestDegree) [0..<2 * highestDegree + 1];
          integrationFactor =
            (map (\<lambda>k. (- \<i> / of_int k / complex_of_real pi) ^ m) sumIndices)
              [highestDegree := 0];
          c3 = scale_rows c2 integrationFactor;
          c4 = (if odd m \<and> isEven then zero_row (zero_row c3 0) n else c3);
          s = - sum_list (map2 (\<lambda>row k. sum_list (map (\<lambda>z. z * (- 1) powi k) row)) c4 sumIndices);
          c5 = c4[highestDegree + 1 := map (\<lambda>_. s) (c4 ! (highestDegree + 1))]
      in if isEven then butlast c5 else c5)"

text \<open>\<open>cumsum\<close> returns its result and \<open>f\<close> as it is after the call.\<close>

definition cumsum :: "externals \<Rightarrow> trigtech \<Rightarrow> nat \<Rightarrow> (py_error + trigtech) \<times> trigtech" where
  "cumsum ext f m =
     (case cumsum_check f of
        Inl e \<Rightarrow> (Inl e, f)
      | Inr ind \<Rightarrow>
          (trigtech_of_coeffs ext (cumsum_coeffs (coeffs f) m)
             (no_kwargs\<lparr>kw_ishappy := Some (ishappy f)\<rparr>),
           f\<lparr>coeffs := cumsum_inplace (coeffs f)\<rparr>))"

subsection \<open>Happiness check\<close>

text \<open>
  Lines 313 to 325 of \<open>happy\<close>: the magnitudes of the reversed coefficients, folded
  around the zero mode, flipped, and every row but the first doubled. Row \<open>n - 1\<close> of an
  array without rows raises.
\<close>

definition happy_fold :: "carray \<Rightarrow> py_error + real list list" where
  "happy_fold c =
     (let A = map (map cmod) (rev c);
          n = length A
      in if n = 0 then Inl IndexError
         else
           (let folded =
                  (if n mod 2 = 0
                   then [A ! (n - 1)]
                        @ map2 (map2 (+)) (rev (take (n div 2 - 1) (drop (n div 2) A)))
                                          (take (n div 2 - 1) A)
                        @ [A ! (n div 2 - 1)]
                   else map2 (map2 (+)) (rev (drop ((n + 1) div 2) A))
                                        (take ((n + 1) div 2 - 1) A)
                        @ [A ! ((n + 1) div 2 - 1)]);
                fl = rev folded
            in Inr (hd fl # concat (map (\<lambda>r. [r, r]) (tl fl)))))"

text \<open>
  The loop over the columns (lines 334 to 347): the chopping rule is called on the column
  of \<open>self.coeffs\<close>; the loop stops at the first unhappy column, and the columns after it
  keep their initial entries \<open>False\<close> and \<open>0\<close>.
\<close>

fun happy_loop :: "(complex list \<Rightarrow> real \<Rightarrow> int) \<Rightarrow> int \<Rightarrow> real \<Rightarrow> complex list list
                     \<Rightarrow> (bool \<times> int) list" where
  "happy_loop chop n tol [] = []"
| "happy_loop chop n tol (col # cols) =
     (let cutoff = chop col tol;
          h = (cutoff < n);
          half = (if cutoff mod 2 = 0 then cutoff div 2 else (cutoff - 1) div 2)
      in (h, half) # (if h then happy_loop chop n tol cols else map (\<lambda>_. (False, 0)) cols))"

definition column :: "nat \<Rightarrow> 'a list list \<Rightarrow> 'a list" where
  "column k c = map (\<lambda>r. r ! k) c"

definition happy :: "externals \<Rightarrow> trigtech \<Rightarrow> py_error + ((bool \<times> int) \<times> trigtech)" where
  "happy ext self =
     (case happy_fold (coeffs self) of
        Inl e \<Rightarrow> Inl e
      | Inr folded \<Rightarrow>
          (let n = length (coeffs self);
               m = n_cols (coeffs self);
               res = happy_loop (standardChopCmplx ext) (int n) (eps self)
                       (map (\<lambda>k. column k (coeffs self)) [0..<m])
           in case map snd res of
                [] \<Rightarrow> Inl ValueError
              | x # xs \<Rightarrow>
                  (let ih = list_all fst res;
                       cutoff = 2 * foldl max x xs + 1
                   in Inr ((ih, cutoff), self\<lparr>ishappy := ih\<rparr>))))"

subsection \<open>Prolongation\<close>

definition set_coeffs :: "externals \<Rightarrow> trigtech \<Rightarrow> carray \<Rightarrow> py_error + trigtech" where
  "set_coeffs ext self c =
     (case force_real (coeffs2vals ext c) (isReal self) of
        Inl e \<Rightarrow> Inl e
      | Inr v \<Rightarrow> Inr (self\<lparr>coeffs := c, vals := v\<rparr>))"

definition prolong :: "externals \<Rightarrow> trigtech \<Rightarrow> int \<Rightarrow> py_error + trigtech" where
  "prolong ext self Nout =
     (let Nin0 = int (length (coeffs self))
      in if Nout = Nin0 then Inr self
         else if Nin0 mod 2 = 0 \<and> coeffs self = [] then Inl IndexError
         else
           (let c = (if Nin0 mod 2 = 0
                     then (let h = map (\<lambda>z. (1 / 2) * z) (hd (coeffs self))
                           in h # tl (coeffs self) @ [h])
                     else coeffs self);
                Nin = (if Nin0 mod 2 = 0 then Nin0 + 1 else Nin0)
            in if Nin = Nout then set_coeffs ext self c
               else if Nout > Nin
               then (let kup = (Nout - Nin + 1) div 2;
                         kdown = (Nout - Nin) div 2;
                         z = replicate (n_cols c) 0
                     in set_coeffs ext self
                          (replicate (nat kup) z @ c @ replicate (nat kdown) z))
               else (let kup = (Nin - Nout) div 2;
                         kdown = (Nin - Nout + 1) div 2;
                         c1 = take (nat (Nin - kdown - kup)) (drop (nat kup) c)
                     in if kup < kdown
                        then (if c1 = [] then Inl IndexError
                              else set_coeffs ext self (map (\<lambda>z. 2 * z) (hd c1) # tl c1))
                        else set_coeffs ext self c1)))"

subsection \<open>Construction from a callable\<close>

text \<open>
  The refinement object is a stateful callable of a module that is not among the
  sources: \<open>refine k self\<close> is what its call number \<open>k\<close> returns on the representation
  \<open>self\<close>, the new values and the flag \<open>giveUp\<close>. The local variable \<open>ishappy\<close> of
  \<open>populate\<close> is unbound until the first happiness check. All values are complex
  numbers, so the replacement of non-finite values by zero changes nothing. The loop
  need not end, hence the option type.
\<close>

partial_function (option) populate_loop ::
  "externals \<Rightarrow> (nat \<Rightarrow> trigtech \<Rightarrow> carray \<times> bool) \<Rightarrow> nat \<Rightarrow> trigtech \<Rightarrow> bool option
     \<Rightarrow> (py_error + (trigtech \<times> bool option)) option" where
  "populate_loop ext refine k self ih =
     (let self1 = self\<lparr>vals := fst (refine k self)\<rparr>
      in if snd (refine k self) then Some (Inr (self1, ih))
         else
           (case all_max cmod (vals self1) of
              Inl e \<Rightarrow> Some (Inl e)
            | Inr mx \<Rightarrow>
                (let self2 = self1\<lparr>vscale := max (vscale self1) mx,
                                   coeffs := vals2coeffs ext (vals self1)\<rparr>
                 in case happy ext self2 of
                      Inl e \<Rightarrow> Some (Inl e)
                    | Inr ((h, cutoff), self3) \<Rightarrow>
                        if h
                        then (case prolong ext self3 cutoff of
                                Inl e \<Rightarrow> Some (Inl e)
                              | Inr self4 \<Rightarrow> Some (Inr (self4, Some True)))
                        else populate_loop ext refine (Suc k) self3 (Some False))))"

definition populate ::
  "externals \<Rightarrow> (nat \<Rightarrow> trigtech \<Rightarrow> carray \<times> bool) \<Rightarrow> trigtech \<Rightarrow> (py_error + trigtech) option" where
  "populate ext refine self =
     (case populate_loop ext refine 0 self None of
        None \<Rightarrow> None
      | Some (Inl e) \<Rightarrow> Some (Inl e)
      | Some (Inr (self1, ih)) \<Rightarrow>
          (case ih of
             None \<Rightarrow> Some (Inl UnboundLocalError)
           | Some h \<Rightarrow>
               (case force_real (vals self1) (isReal self1) of
                  Inl e \<Rightarrow> Some (Inl e)
                | Inr v \<Rightarrow> Some (Inr (self1\<lparr>ishappy := h, vals := v\<rparr>)))))"




subsection \<open>Inner product\<close>

text \<open>\<open>fvalues.T * w\<close>: the weights are broadcast along the rows of the transposed array,
  whose rows have \<open>nf\<close> entries; the result comes with the length of its rows.\<close>

definition times_weights :: "nat \<Rightarrow> carray \<Rightarrow> real list \<Rightarrow> py_error + (carray \<times> nat)" where
  "times_weights nf A w =
     (if nf = length w
      then Inr (map (\<lambda>row. map2 (\<lambda>z x. z * complex_of_real x) row w) A, nf)
      else if length w = 1
      then Inr (map (map (\<lambda>z. z * complex_of_real (hd w))) A, nf)
      else if nf = 1
      then Inr (map (\<lambda>row. map (\<lambda>x. hd row * complex_of_real x) w) A, length w)
      else Inl ValueError)"

text \<open>\<open>np.matmul\<close> of an array with rows of \<open>k\<close> entries and an array \<open>B\<close>.\<close>

definition matmul :: "carray \<Rightarrow> nat \<Rightarrow> carray \<Rightarrow> py_error + carray" where
  "matmul A k B =
     (if k \<noteq> length B then Inl ValueError
      else Inr (map (\<lambda>row. map (\<lambda>col. sum_list (map2 (*) row col)) (transpose B)) A))"

text \<open>\<open>inner\<close>. The comparison \<open>trig1 == trig2\<close> has no effect; \<open>squeeze\<close> only drops
  axes of length one, and the result is kept as the matrix it is before.\<close>

definition inner :: "externals \<Rightarrow> trigtech \<Rightarrow> trigtech \<Rightarrow> py_error + carray" where
  "inner ext trig1 trig2 =
     (let n = length (coeffs trig1) + length (coeffs trig2);
          fvalues = snd (ts_prolong ext (coeffs trig1) n (isReal trig1));
          gvalues = snd (ts_prolong ext (coeffs trig2) n (isReal trig2));
          w = quadwts ext n
      in case times_weights (length fvalues) (transpose fvalues) w of
           Inl e \<Rightarrow> Inl e
         | Inr (fw, k) \<Rightarrow>
             (case matmul fw k (map (map cnj) gvalues) of
                Inl e \<Rightarrow> Inl e
              | Inr out \<Rightarrow>
                  (case bcast2 (\<and>) (isReal trig1) (isReal trig2) of
                     Inl e \<Rightarrow> Inl e
                   | Inr fl \<Rightarrow>
                       Inr (if list_all id fl
                            then map (map (\<lambda>z. complex_of_real (Re z))) out
                            else out))))"

section \<open>Concrete inputs\<close>

text \<open>
  A deflated-residual problem on functions that are single real numbers: the norm is the
  absolute value, the discretisation yields a two-by-two matrix, and the state is handed
  over raw. One operator is built without known solutions, one with the known solution 1.
\<close>

definition ops0 :: "real fun_ops" where
  "ops0 = \<lparr> h1norm = abs, fn_sub = (-), fn_add = (+), fn_div = (/), fn_mul = (*),
            fn_zeros_like = (\<lambda>_. 0), fn_size = (\<lambda>_. 2), fn_len = (\<lambda>_. 2),
            fn_prolong = (\<lambda>x n. x),
            mk_Functional = (\<lambda>f name v. f * sum_list v) \<rparr>"

definition operator0 :: "real nonlinear_operator" where
  "operator0 =
     \<lparr> discretize = (\<lambda>u par. \<lparr> c_matrix = ([[1, 2], [3, 4]], [[1, 0], [0, 1]], []),
                                c_P = [], c_rhs0 = [1, 1],
                                c_rhs = (\<lambda>u. [underlying u, 2]), c_name = ''trig'' \<rparr>),
       n_disc = 2 \<rparr>"

definition kwargs0 :: "real list \<Rightarrow> real init_kwargs" where
  "kwargs0 l = \<lparr> kw_ks = Some l, kw_shift = None, kw_power = None \<rparr>"

definition undeflated0 :: "real DeflatedResidual" where
  "undeflated0 = projr (DeflatedResidual_init ops0 operator0 (Raw 3) False (kwargs0 []))"

definition deflated0 :: "real DeflatedResidual" where
  "deflated0 = projr (DeflatedResidual_init ops0 operator0 (Raw 3) False (kwargs0 [1]))"

text \<open>
  Stand-ins for the external functions. On representations of length one (constant
  functions) they are what such functions are: the transforms are the identity, a
  constant prolonged to \<open>n\<close> points has its value at every grid point, and the \<open>n\<close>
  quadrature weights of the interval of length two are \<open>2 / n\<close>. On longer arrays the
  transforms are only stand-ins that keep the shape; no statement below depends on the
  values they produce there. The chopping rule of \<open>ext0\<close>
  never chops; \<open>probe_ext target\<close> chops to nothing exactly the column \<open>target\<close>, which
  shows what the rule is called on.
\<close>

definition ext0 :: externals where
  "ext0 = \<lparr> coeffs2vals = (\<lambda>c. c), vals2coeffs = (\<lambda>v. v),
            standardChopCmplx = (\<lambda>col tol. int (length col)),
            simplify_coeffs = (\<lambda>c r e. (c, c)),
            ts_prolong = (\<lambda>c n r. (replicate (n div 2) (map (\<lambda>_. 0) (hd c)) @ [hd c]
                                      @ replicate ((n - 1) div 2) (map (\<lambda>_. 0) (hd c)),
                                    replicate n (hd c))),
            quadwts = (\<lambda>n. replicate n (2 / real n)) \<rparr>"

definition probe_ext :: "complex list \<Rightarrow> externals" where
  "probe_ext target =
     ext0\<lparr>standardChopCmplx := (\<lambda>col tol. if col = target then 0 else int (length col))\<rparr>"

text \<open>\<open>tt c\<close> is the representation that \<open>trigtech(coeffs=c)\<close> returns.\<close>

definition tt :: "carray \<Rightarrow> trigtech" where
  "tt c = projr (trigtech_of_coeffs ext0 c no_kwargs)"

text \<open>
  The constants \<open>1\<close> and \<open>i\<close> at length one; at length three the constant \<open>1\<close>, the
  sine \<open>sin(pi x)\<close> and the exponential \<open>exp(-i pi x)\<close>. The middle row of a
  representation of length three holds the zero-frequency coefficient.
\<close>

definition t_one :: trigtech where
  "t_one = tt [[1]]"

definition t_i :: trigtech where
  "t_i = tt [[\<i>]]"

definition t_const :: trigtech where
  "t_const = tt [[0], [1], [0]]"

definition t_sin :: trigtech where
  "t_sin = tt [[\<i> / 2], [0], [- \<i> / 2]]"

definition t_exp :: trigtech where
  "t_exp = tt [[1], [0], [0]]"

text \<open>Constants in two and in three columns.\<close>

definition t_two :: trigtech where
  "t_two = tt [[1, 1]]"

definition t_three :: trigtech where
  "t_three = tt [[1, 1, 1]]"

text \<open>A representation of even length whose rows \<open>0\<close> and \<open>n div 2\<close> are not zero.\<close>

definition t_even :: trigtech where
  "t_even = tt [[2], [0], [3], [0]]"

text \<open>
  What is asked of the external transforms: the result has the shape of the argument.
\<close>

definition shape_preserving :: "(carray \<Rightarrow> carray) \<Rightarrow> bool" where
  "shape_preserving g = (\<forall>n m c. rect n m c \<longrightarrow> rect n m (g c))"



section \<open>Properties of the deflated residual\<close>

lemma compute_der_deflation_nonempty:
  assumes "kss \<noteq> []" and "compute_der_deflation ops kss sh pw name u = Inr (e, F)"
  shows "F \<noteq> None"
  using assms
  by (auto simp: compute_der_deflation_def Let_def split: sum.splits prod.splits)

lemma init_functional:
  assumes "DeflatedResidual_init ops operator u par kwargs = Inr self"
    and "known_solutions self \<noteq> []"
  shows "dr_functional self \<noteq> None"
proof -
  obtain M0 P0 S0 where m: "c_matrix (discretize operator u par) = (M0, P0, S0)"
    by (cases "c_matrix (discretize operator u par)") auto
  show ?thesis
    using assms
    by (cases u)
       (auto simp: DeflatedResidual_init_def Let_def m
             split: sum.splits prod.splits if_splits
             dest: compute_der_deflation_nonempty)
qed

lemma init_b:
  assumes "DeflatedResidual_init ops operator u par kwargs = Inr self"
  shows "dr_b self = (if known_solutions self \<noteq> []
                      then np_scale (dr_eta self) (c_rhs0 (dr_colloc self))
                      else c_rhs0 (dr_colloc self))"
proof -
  obtain M0 P0 S0 where m: "c_matrix (discretize operator u par) = (M0, P0, S0)"
    by (cases "c_matrix (discretize operator u par)") auto
  show ?thesis
    using assms
    by (cases u)
       (auto simp: DeflatedResidual_init_def Let_def m split: sum.splits prod.splits if_splits)
qed

lemma init_MT:
  "DeflatedResidual_init ops operator u par kwargs = Inr self \<Longrightarrow> dr_MT self = None"
  by (auto simp: DeflatedResidual_init_def Let_def split: sum.splits prod.splits if_splits)

lemma der_loop_error:
  "der_deflation_loop ops sh pw u kss acc = Inl e \<Longrightarrow> e = ZeroDivisionError"
  by (induction ops sh pw u kss acc rule: der_deflation_loop.induct)
     (auto simp: Let_def split: if_splits)

lemma precond_fields:
  "pc_ks (precond self) = length (known_solutions self)"
  "pc_PfT (precond self) = None"
  "pc_Pf (precond self) = dr_P self"
  by (simp_all add: precond_def DeflatedResidualPrecond_init_def Let_def)

lemma rmatvec_store:
  assumes "dr_MT self = None \<or> dr_MT self = Some (transpose (dr_M self))"
  shows "(if dr_MT self = None then self\<lparr>dr_MT := Some (transpose (dr_M self))\<rparr> else self)
           = self\<lparr>dr_MT := Some (transpose (dr_M self))\<rparr>"
proof (cases "dr_MT self")
  case None
  then show ?thesis by simp
next
  case (Some T)
  with assms have "self\<lparr>dr_MT := Some (transpose (dr_M self))\<rparr> = self\<lparr>dr_MT := dr_MT self\<rparr>"
    by simp
  with Some show ?thesis by simp
qed

lemma pc_rmatvec_store:
  assumes "pc_PfT pc = None \<or> pc_PfT pc = Some (transpose (pc_Pf pc))"
  shows "(if pc_PfT pc = None then pc\<lparr>pc_PfT := Some (transpose (pc_Pf pc))\<rparr> else pc)
           = pc\<lparr>pc_PfT := Some (transpose (pc_Pf pc))\<rparr>"
proof (cases "pc_PfT pc")
  case None
  then show ?thesis by simp
next
  case (Some T)
  with assms have "pc\<lparr>pc_PfT := Some (transpose (pc_Pf pc))\<rparr> = pc\<lparr>pc_PfT := pc_PfT pc\<rparr>"
    by simp
  with Some show ?thesis by simp
qed

lemmas init0_defs = DeflatedResidual_init_def ops0_def operator0_def kwargs0_def
  compute_der_deflation_def np_scale_def Let_def

lemma undeflated0_init:
  "DeflatedResidual_init ops0 operator0 (Raw 3) False (kwargs0 []) = Inr undeflated0"
  by (simp add: undeflated0_def init0_defs)

lemma deflated0_init:
  "DeflatedResidual_init ops0 operator0 (Raw 3) False (kwargs0 [1]) = Inr deflated0"
  by (simp add: deflated0_def init0_defs)

lemma undeflated0_fields:
  "known_solutions undeflated0 = []" "dr_M undeflated0 = [[1, 2], [3, 4]]"
  "dr_MT undeflated0 = None" "dr_P undeflated0 = [[1, 0], [0, 1]]"
  "dr_functional undeflated0 = None" "dr_eta undeflated0 = 1" "dr_b undeflated0 = [1, 1]"
  "c_rhs (dr_colloc undeflated0) = (\<lambda>u. [underlying u, 2])"
  by (simp_all add: undeflated0_def init0_defs)

lemma deflated0_fields:
  "known_solutions deflated0 = [1]" "dr_M deflated0 = [[1, 2], [3, 4]]"
  "dr_MT deflated0 = None" "dr_P deflated0 = [[1, 0], [0, 1]]"
  "dr_eta deflated0 = 5 / 4" "dr_b deflated0 = [5 / 4, 5 / 4]"
  "dr_functional deflated0 = Some (\<lambda>v. - (1 / 4) * sum_list v)"
  by (simp_all add: deflated0_def init0_defs)

text \<open>
  C1. For an operator built by the constructor and every coefficient vector \<open>c\<close>: with no
  known solutions \<open>matvec\<close> returns \<open>M c\<close>; with known solutions it returns
  \<open>eta * (M c) + b * functional(c)\<close>, where \<open>eta\<close>, \<open>b\<close> and the functional are the fields
  set by the constructor: the functional is then present, and \<open>b\<close> is the right-hand side
  of the discretisation times \<open>eta\<close>.
\<close>

theorem matvec_rank_one_update:
  assumes "DeflatedResidual_init ops operator u par kwargs = Inr self"
  shows "(known_solutions self = [] \<longrightarrow> matvec self c = Inr (mul_vector (dr_M self) c)) \<and>
         (known_solutions self \<noteq> [] \<longrightarrow>
            dr_b self = np_scale (dr_eta self) (c_rhs0 (dr_colloc self)) \<and>
            (\<exists>F. dr_functional self = Some F \<and>
                 matvec self c =
                   np_add (np_scale (dr_eta self) (mul_vector (dr_M self) c))
                          (np_scale (F c) (dr_b self))))"
proof (intro conjI impI)
  assume "known_solutions self = []"
  then show "matvec self c = Inr (mul_vector (dr_M self) c)"
    by (simp add: matvec_def)
next
  assume "known_solutions self \<noteq> []"
  with init_b [OF assms] show "dr_b self = np_scale (dr_eta self) (c_rhs0 (dr_colloc self))"
    by simp
next
  assume ne: "known_solutions self \<noteq> []"
  from init_functional [OF assms ne] obtain F where F: "dr_functional self = Some F"
    by auto
  with ne show "\<exists>F. dr_functional self = Some F \<and>
                 matvec self c =
                   np_add (np_scale (dr_eta self) (mul_vector (dr_M self) c))
                          (np_scale (F c) (dr_b self))"
    by (simp add: matvec_def)
qed

text \<open>
  C1 at the two operators built from the raw state 3: without known solutions the
  action on \<open>[1, 1]\<close> is \<open>M [1, 1] = [3, 7]\<close>; with the known solution 1 it is
  \<open>5/4 * [3, 7] + [5/4, 5/4] * (-1/2)\<close>.
\<close>

theorem matvec_rank_one_update_witness:
  "DeflatedResidual_init ops0 operator0 (Raw 3) False (kwargs0 []) = Inr undeflated0 \<and>
   known_solutions undeflated0 = [] \<and> matvec undeflated0 [1, 1] = Inr [3, 7] \<and>
   DeflatedResidual_init ops0 operator0 (Raw 3) False (kwargs0 [1]) = Inr deflated0 \<and>
   known_solutions deflated0 \<noteq> [] \<and> matvec deflated0 [1, 1] = Inr [25 / 8, 65 / 8]"
  using matvec_rank_one_update [OF undeflated0_init, of "[1, 1]"]
        matvec_rank_one_update [OF deflated0_init, of "[1, 1]"]
  by (simp add: undeflated0_init deflated0_init undeflated0_fields deflated0_fields
      mul_vector_def np_scale_def np_add_def)

text \<open>
  C8, as the code has it. The deflated adjoint of both operators fails with the
  AssertionError of \<open>assert False\<close> (for the residual operator, when its functional is
  present, as it is after construction); it returns no number. Without known solutions
  the adjoint returns the product with the transpose. After any call the transpose is
  stored in the operator, and an operator that holds it is left unchanged.
\<close>

theorem rmatvec_adjoint:
  assumes "dr_MT self = None \<or> dr_MT self = Some (transpose (dr_M self))"
    and "pc_PfT pc = None \<or> pc_PfT pc = Some (transpose (pc_Pf pc))"
    and "known_solutions self \<noteq> [] \<longrightarrow> dr_functional self \<noteq> None"
  shows "(known_solutions self \<noteq> [] \<longrightarrow> fst (rmatvec self x) = Inl AssertionError) \<and>
         (pc_ks pc \<noteq> 0 \<longrightarrow> fst (pc_rmatvec pc x) = Inl AssertionError) \<and>
         (known_solutions self = [] \<longrightarrow>
            fst (rmatvec self x) = Inr (mul_vector (transpose (dr_M self)) x)) \<and>
         (pc_ks pc = 0 \<longrightarrow>
            fst (pc_rmatvec pc x) = Inr (mul_vector (transpose (pc_Pf pc)) x)) \<and>
         snd (rmatvec self x) = self\<lparr>dr_MT := Some (transpose (dr_M self))\<rparr> \<and>
         snd (pc_rmatvec pc x) = pc\<lparr>pc_PfT := Some (transpose (pc_Pf pc))\<rparr>"
proof -
  note a = rmatvec_store [OF assms(1)] and b = pc_rmatvec_store [OF assms(2)]
  have 1: "known_solutions self \<noteq> [] \<longrightarrow> fst (rmatvec self x) = Inl AssertionError"
    using assms(3) unfolding rmatvec_def Let_def a by (cases "dr_functional self") simp_all
  have 2: "pc_ks pc \<noteq> 0 \<longrightarrow> fst (pc_rmatvec pc x) = Inl AssertionError"
    unfolding pc_rmatvec_def Let_def b by simp
  have 3: "known_solutions self = [] \<longrightarrow>
            fst (rmatvec self x) = Inr (mul_vector (transpose (dr_M self)) x)"
    unfolding rmatvec_def Let_def a by simp
  have 4: "pc_ks pc = 0 \<longrightarrow>
            fst (pc_rmatvec pc x) = Inr (mul_vector (transpose (pc_Pf pc)) x)"
    unfolding pc_rmatvec_def Let_def b by simp
  have 5: "snd (rmatvec self x) = self\<lparr>dr_MT := Some (transpose (dr_M self))\<rparr>"
    unfolding rmatvec_def Let_def a by (cases "dr_functional self") simp_all
  have 6: "snd (pc_rmatvec pc x) = pc\<lparr>pc_PfT := Some (transpose (pc_Pf pc))\<rparr>"
    unfolding pc_rmatvec_def Let_def b by simp
  from 1 2 3 4 5 6 show ?thesis by blast
qed

text \<open>C8 at the two operators built above and their preconditioners.\<close>

theorem rmatvec_adjoint_witness:
  "fst (rmatvec deflated0 [1, 1]) = Inl AssertionError \<and>
   fst (pc_rmatvec (precond deflated0) [1, 1]) = Inl AssertionError \<and>
   fst (rmatvec undeflated0 [1, 1]) = Inr [4, 6] \<and>
   fst (pc_rmatvec (precond undeflated0) [1, 1]) = Inr [1, 1] \<and>
   dr_MT (snd (rmatvec undeflated0 [1, 1])) = Some [[1, 3], [2, 4]] \<and>
   pc_PfT (snd (pc_rmatvec (precond undeflated0) [1, 1])) = Some [[1, 0], [0, 1]]"
  using rmatvec_adjoint [of deflated0 "precond deflated0" "[1, 1]"]
        rmatvec_adjoint [of undeflated0 "precond undeflated0" "[1, 1]"]
  by (simp add: precond_fields undeflated0_fields deflated0_fields mul_vector_def)

text \<open>
  C8 as stated fails: on the operator deflated with the known solution 1, neither
  adjoint raises NotImplementedError.
\<close>

theorem rmatvec_not_NotImplementedError:
  "fst (rmatvec deflated0 [1, 1]) \<noteq> Inl NotImplementedError \<and>
   fst (pc_rmatvec (precond deflated0) [1, 1]) \<noteq> Inl NotImplementedError"
  by (simp add: rmatvec_def pc_rmatvec_def precond_fields deflated0_fields Let_def)

text \<open>
  C10. Construction from a raw state never fails for want of the attribute \<open>u\<close>. With
  known solutions, \<open>rhs\<close> of a raw state raises AttributeError; without, \<open>rhs\<close> returns the
  residual of the discretisation for every state, raw or wrapped.
\<close>

theorem rhs_reads_attribute_u:
  "DeflatedResidual_init ops operator (Raw x) par kwargs \<noteq> Inl AttributeError \<and>
   (known_solutions self \<noteq> [] \<longrightarrow> rhs ops self (Raw y) = Inl AttributeError) \<and>
   (known_solutions self = [] \<longrightarrow> rhs ops self u = Inr (c_rhs (dr_colloc self) u))"
proof (intro conjI impI)
  obtain M0 P0 S0 where m: "c_matrix (discretize operator (Raw x) par) = (M0, P0, S0)"
    by (cases "c_matrix (discretize operator (Raw x) par)") auto
  have "compute_der_deflation ops kss sh pw name v \<noteq> Inl AttributeError" for kss sh pw name v
    by (auto simp: compute_der_deflation_def Let_def split: sum.splits prod.splits
             dest: der_loop_error)
  then show "DeflatedResidual_init ops operator (Raw x) par kwargs \<noteq> Inl AttributeError"
    by (auto simp: DeflatedResidual_init_def Let_def m split: sum.splits prod.splits)
next
  assume "known_solutions self \<noteq> []"
  then show "rhs ops self (Raw y) = Inl AttributeError"
    by (simp add: rhs_def)
next
  assume "known_solutions self = []"
  then show "rhs ops self u = Inr (c_rhs (dr_colloc self) u)"
    by (simp add: rhs_def)
qed

text \<open>
  C10 at the operators built from the raw state 3: construction succeeds, and \<open>rhs\<close> of
  the same raw state raises AttributeError on the deflated operator and returns the
  residual on the other.
\<close>

theorem rhs_reads_attribute_u_witness:
  "DeflatedResidual_init ops0 operator0 (Raw 3) False (kwargs0 [1]) = Inr deflated0 \<and>
   known_solutions deflated0 \<noteq> [] \<and> rhs ops0 deflated0 (Raw 3) = Inl AttributeError \<and>
   known_solutions undeflated0 = [] \<and> rhs ops0 undeflated0 (Raw 3) = Inr [3, 2]"
  using rhs_reads_attribute_u [of ops0 operator0 3 False "kwargs0 [1]" deflated0 3 "Raw 3"]
        rhs_reads_attribute_u [of ops0 operator0 3 False "kwargs0 [1]" undeflated0 3 "Raw 3"]
  by (simp add: deflated0_init deflated0_fields undeflated0_fields)

section \<open>Properties of the trigtech representation\<close>

lemmas tt_defs = trigtech_of_coeffs_def of_coeffs_arrays_def mark_real_def trigtech_base_def no_kwargs_def get_vscale_def
  get_isreal_def col_max_def bcast2_def force_real_def ext0_def Let_def

lemma t_one_eq: "t_one = \<lparr>maxLength = 4096, eps = 1 / 10 ^ 10, hscale = 1 / 10 ^ 10,
    vscale = 1 / 10 ^ 10, ishappy = True, isReal = [True], coeffs = [[1]], vals = [[1]]\<rparr>"
  by (simp add: t_one_def tt_def tt_defs)

lemma t_i_eq: "t_i = \<lparr>maxLength = 4096, eps = 1 / 10 ^ 10, hscale = 1 / 10 ^ 10,
    vscale = 1 / 10 ^ 10, ishappy = True, isReal = [False], coeffs = [[\<i>]], vals = [[\<i>]]\<rparr>"
  by (simp add: t_i_def tt_def tt_defs)

lemma t_const_eq: "t_const = \<lparr>maxLength = 4096, eps = 1 / 10 ^ 10,
    hscale = 1 / 10 ^ 10, vscale = 1 / 10 ^ 10, ishappy = True, isReal = [True],
    coeffs = [[0], [1], [0]], vals = [[0], [1], [0]]\<rparr>"
  by (simp add: t_const_def tt_def tt_defs)

lemma t_sin_eq: "t_sin = \<lparr>maxLength = 4096, eps = 1 / 10 ^ 10,
    hscale = 1 / 10 ^ 10, vscale = 1 / 10 ^ 10, ishappy = True, isReal = [False],
    coeffs = [[\<i> / 2], [0], [- \<i> / 2]], vals = [[\<i> / 2], [0], [- \<i> / 2]]\<rparr>"
  by (simp add: t_sin_def tt_def tt_defs)

lemma t_exp_eq: "t_exp = \<lparr>maxLength = 4096, eps = 1 / 10 ^ 10,
    hscale = 1 / 10 ^ 10, vscale = 1 / 10 ^ 10, ishappy = True, isReal = [True],
    coeffs = [[1], [0], [0]], vals = [[1], [0], [0]]\<rparr>"
  by (simp add: t_exp_def tt_def tt_defs)

lemma of_coeffs_ext0:
  "\<exists>g. trigtech_of_coeffs ext0 [[a], [b], [c]] kw = Inr g \<and> coeffs g = [[a], [b], [c]] \<and> ishappy g"
  by (simp add: tt_defs)

lemma of_coeffs_ext0_one:
  "\<exists>g. trigtech_of_coeffs ext0 [[a]] kw = Inr g \<and> coeffs g = [[a]] \<and> ishappy g"
  by (simp add: tt_defs)

lemmas cumsum_coeffs_defs = cumsum_coeffs_def cumsum_inplace_def zero_row_def scale_rows_def
  upt_rec Let_def

lemmas diff_coeffs_defs = diff_coeffs_def waveNumber_def arange_def scale_rows_def upt_rec

text \<open>
  C2 fails on the code. \<open>cumsum\<close> tests the row after the zero-frequency row, and compares
  the truth value of \<open>np.any\<close> with the tolerance. The sine \<open>sin(pi x)\<close> has mean zero
  (row \<open>const_index\<close> is zero) and its antiderivative raises RuntimeError; the constant
  \<open>1\<close> at length three has mean one and its antiderivative is returned, with all
  coefficients zero.
\<close>

theorem cumsum_tests_wrong_row:
  "const_index t_sin = 1 \<and> coeffs t_sin ! 1 = [0] \<and>
   fst (cumsum ext0 t_sin 1) = Inl RuntimeError \<and>
   const_index t_const = 1 \<and> coeffs t_const ! 1 = [1] \<and>
   (\<exists>g. fst (cumsum ext0 t_const 1) = Inr g \<and> coeffs g = [[0], [0], [0]])"
proof -
  have 1: "const_index t_sin = 1 \<and> coeffs t_sin ! 1 = [0]"
    by (simp add: t_sin_eq const_index_def)
  have 2: "fst (cumsum ext0 t_sin 1) = Inl RuntimeError"
    by (simp add: t_sin_eq cumsum_def cumsum_check_def)
  have 3: "const_index t_const = 1 \<and> coeffs t_const ! 1 = [1]"
    by (simp add: t_const_eq const_index_def)
  have 4: "cumsum_check t_const = Inr 2"
    by (simp add: t_const_eq cumsum_check_def)
  have 5: "cumsum_coeffs (coeffs t_const) (Suc 0) = [[0], [0], [0]]"
    by (simp add: t_const_eq cumsum_coeffs_defs)
  from of_coeffs_ext0 [of 0 0 0 "no_kwargs\<lparr>kw_ishappy := Some (ishappy t_const)\<rparr>"]
  have 6: "\<exists>g. fst (cumsum ext0 t_const 1) = Inr g \<and> coeffs g = [[0], [0], [0]]"
    by (auto simp add: cumsum_def 4 5)
  from 1 2 3 6 show ?thesis by blast
qed

text \<open>
  C3 fails on the code. The exponential \<open>exp(-i pi x)\<close> has mean zero; \<open>cumsum\<close> writes the
  constant of integration into the row after the zero-frequency row, so the derivative
  of the antiderivative has \<open>-1\<close> in the last row, where the input has \<open>0\<close>.
\<close>

theorem diff_cumsum_not_inverse:
  "const_index t_exp = 1 \<and> coeffs t_exp = [[1], [0], [0]] \<and>
   (\<exists>g h. fst (cumsum ext0 t_exp 1) = Inr g \<and> diff ext0 g 1 = Inr h \<and>
      coeffs g = [[\<i> / pi], [0], [\<i> / pi]] \<and> coeffs h = [[1], [0], [- 1]])"
proof -
  have 1: "const_index t_exp = 1 \<and> coeffs t_exp = [[1], [0], [0]]"
    by (simp add: t_exp_eq const_index_def)
  have 2: "cumsum_check t_exp = Inr 2"
    by (simp add: t_exp_eq cumsum_check_def)
  have 3: "cumsum_coeffs (coeffs t_exp) (Suc 0) = [[\<i> / pi], [0], [\<i> / pi]]"
    by (simp add: t_exp_eq cumsum_coeffs_defs)
  have 4: "diff_coeffs [[\<i> / pi], [0], [\<i> / pi]] (Suc 0) = [[1], [0], [- 1]]"
    by (simp add: diff_coeffs_defs)
  from of_coeffs_ext0 [of "\<i> / pi" 0 "\<i> / pi"] obtain g where
    g: "trigtech_of_coeffs ext0 [[\<i> / pi], [0], [\<i> / pi]] (no_kwargs\<lparr>kw_ishappy := Some (ishappy t_exp)\<rparr>) = Inr g"
       "coeffs g = [[\<i> / pi], [0], [\<i> / pi]]"
    by blast
  from of_coeffs_ext0 [of 1 0 "- 1"] obtain h where
    h: "trigtech_of_coeffs ext0 [[1], [0], [- 1]] (no_kwargs\<lparr>kw_ishappy := Some (ishappy g)\<rparr>) = Inr h"
       "coeffs h = [[1], [0], [- 1]]"
    by blast
  have "fst (cumsum ext0 t_exp 1) = Inr g"
    by (simp add: cumsum_def 2 3 g)
  moreover have "diff ext0 g 1 = Inr h"
    by (simp add: diff_def g(2) 4 h)
  ultimately show ?thesis using 1 g(2) h(2) by blast
qed

text \<open>
  C4 fails on the code. The folded representation of the coefficients \<open>[1, 0, 0]\<close> is
  \<open>[0, 1, 1]\<close>. A chopping rule that chops only the folded column leaves the
  representation unhappy, and one that chops only the column of the stored coefficients
  makes it happy: the rule is called on the stored coefficients, and the folded array
  is not used. The verdict is \<open>cutoff < n\<close> with \<open>n = 3\<close>.
\<close>

theorem happy_chops_raw_column:
  "happy_fold (coeffs t_exp) = Inr [[0], [1], [1]] \<and>
   happy (probe_ext [0, 1, 1]) t_exp = Inr ((False, 3), t_exp\<lparr>ishappy := False\<rparr>) \<and>
   happy (probe_ext [1, 0, 0]) t_exp = Inr ((True, 1), t_exp\<lparr>ishappy := True\<rparr>)"
proof -
  have 1: "happy_fold (coeffs t_exp) = Inr [[0], [1], [1]]"
    by (simp add: t_exp_eq happy_fold_def Let_def)
  have 2: "map (\<lambda>k. column k (coeffs t_exp)) [0..<n_cols (coeffs t_exp)] = [[1, 0, 0]]"
    by (simp add: t_exp_eq n_cols_def column_def)
  have 3: "length (coeffs t_exp) = 3"
    by (simp add: t_exp_eq)
  have 4: "happy (probe_ext [0, 1, 1]) t_exp = Inr ((False, 3), t_exp\<lparr>ishappy := False\<rparr>)"
    by (simp add: happy_def 1 2 3 probe_ext_def ext0_def Let_def)
  have 5: "happy (probe_ext [1, 0, 0]) t_exp = Inr ((True, 1), t_exp\<lparr>ishappy := True\<rparr>)"
    by (simp add: happy_def 1 2 3 probe_ext_def ext0_def Let_def)
  from 1 4 5 show ?thesis by blast
qed

text \<open>
  C6 as stated fails: the derivative of the constant \<open>1\<close>, taken from a representation that
  is not marked happy, is marked happy.
\<close>

theorem diff_marks_happy:
  "diff ext0 (t_one\<lparr>ishappy := False\<rparr>) 1 =
     Inr \<lparr>maxLength = 4096, eps = 1 / 10 ^ 10, hscale = 1 / 10 ^ 10, vscale = 1 / 10 ^ 10,
          ishappy = True, isReal = [True], coeffs = [[0]], vals = [[0]]\<rparr>"
proof -
  have "diff_coeffs (coeffs (t_one\<lparr>ishappy := False\<rparr>)) (Suc 0) = [[0]]"
    by (simp add: t_one_eq diff_coeffs_defs)
  then show ?thesis
    by (simp add: diff_def tt_defs)
qed

lemma t_two_eq: "t_two = \<lparr>maxLength = 4096, eps = 1 / 10 ^ 10, hscale = 1 / 10 ^ 10,
    vscale = 1 / 10 ^ 10, ishappy = True, isReal = [True, True], coeffs = [[1, 1]],
    vals = [[1, 1]]\<rparr>"
  by (simp add: t_two_def tt_def tt_defs)

lemma t_three_eq: "t_three = \<lparr>maxLength = 4096, eps = 1 / 10 ^ 10, hscale = 1 / 10 ^ 10,
    vscale = 1 / 10 ^ 10, ishappy = True, isReal = [True, True, True], coeffs = [[1, 1, 1]],
    vals = [[1, 1, 1]]\<rparr>"
  by (simp add: t_three_def tt_def tt_defs)

text \<open>
  C7 as stated fails: the inner product of the constants \<open>i\<close> and \<open>1\<close> is \<open>2 i\<close>, the
  integral of \<open>f\<close> times the conjugate of \<open>g\<close>; with the conjugate on \<open>f\<close> it would be
  \<open>- 2 i\<close>. And the inner product of a representation with two columns and one with
  three raises ValueError, from the product of their real flags.
\<close>

theorem inner_conjugates_second:
  "inner ext0 t_i t_one = Inr [[2 * \<i>]] \<and> inner ext0 t_i t_one \<noteq> Inr [[- 2 * \<i>]] \<and>
   inner ext0 t_two t_three = Inl ValueError"
proof -
  have "inner ext0 t_i t_one = Inr [[2 * \<i>]]"
    by (simp add: t_one_eq t_i_eq inner_def ext0_def times_weights_def matmul_def bcast2_def
        Let_def numeral_2_eq_2)
  moreover have "inner ext0 t_two t_three = Inl ValueError"
    by (simp add: t_two_eq t_three_eq inner_def ext0_def times_weights_def matmul_def bcast2_def
        Let_def numeral_2_eq_2)
  ultimately show ?thesis by simp
qed

text \<open>
  C9 as stated fails: \<open>cumsum\<close> of a representation of length one raises IndexError and
  leaves it as it was; \<open>cumsum\<close> of the constant at length three passes the test and
  leaves it as it was, the row that is zeroed being zero already.
\<close>

theorem cumsum_raises_unchanged:
  "cumsum ext0 t_one 1 = (Inl IndexError, t_one) \<and>
   cumsum_check t_const = Inr 2 \<and> snd (cumsum ext0 t_const 1) = t_const"
proof -
  have 1: "cumsum ext0 t_one 1 = (Inl IndexError, t_one)"
    by (simp add: t_one_eq cumsum_def cumsum_check_def Let_def)
  have 2: "cumsum_check t_const = Inr 2"
    by (simp add: t_const_eq cumsum_check_def)
  have 3: "cumsum_inplace (coeffs t_const) = coeffs t_const"
    by (simp add: t_const_eq cumsum_inplace_def zero_row_def)
  have "snd (cumsum ext0 t_const 1) = t_const"
    by (simp add: cumsum_def 2 3)
  with 1 2 show ?thesis by blast
qed

lemma t_even_eq: "t_even = \<lparr>maxLength = 4096, eps = 1 / 10 ^ 10,
    hscale = 1 / 10 ^ 10, vscale = 1 / 10 ^ 10, ishappy = True, isReal = [True],
    coeffs = [[2], [0], [3], [0]], vals = [[2], [0], [3], [0]]\<rparr>"
  by (simp add: t_even_def tt_def tt_defs)

lemma cumsum_check_bounds:
  assumes "cumsum_check f = Inr ind"
  shows "if even (length (coeffs f))
         then 0 < length (coeffs f) div 2 \<and> length (coeffs f) div 2 < length (coeffs f)
         else (length (coeffs f) + 1) div 2 < length (coeffs f)"
  using assms by (auto simp: cumsum_check_def Let_def split: if_splits)

text \<open>
  C9, as the code has it. When the test at the head of \<open>cumsum\<close> raises, the
  representation is left as it was. When it passes, the call leaves in \<open>f.coeffs\<close> the
  old array with row \<open>n div 2\<close> set to zero and the first row halved (even \<open>n\<close>), or
  with row \<open>(n + 1) div 2\<close> set to zero (odd \<open>n\<close>); these rows exist. Nothing else of
  \<open>f\<close> is changed.
\<close>

theorem cumsum_writes_into_input:
  "(cumsum_check f = Inl e \<longrightarrow> cumsum ext f m = (Inl e, f)) \<and>
   (cumsum_check f = Inr ind \<longrightarrow>
      (if even (length (coeffs f))
       then length (coeffs f) div 2 < length (coeffs f) \<and>
            snd (cumsum ext f m) =
              f\<lparr>coeffs := (coeffs f)
                   [length (coeffs f) div 2 := map (\<lambda>_. 0) (coeffs f ! (length (coeffs f) div 2)),
                    0 := map (\<lambda>z. (1 / 2) * z) (coeffs f ! 0)]\<rparr>
       else (length (coeffs f) + 1) div 2 < length (coeffs f) \<and>
            snd (cumsum ext f m) =
              f\<lparr>coeffs := (coeffs f)
                   [(length (coeffs f) + 1) div 2 :=
                      map (\<lambda>_. 0) (coeffs f ! ((length (coeffs f) + 1) div 2))]\<rparr>))"
proof (intro conjI impI)
  assume "cumsum_check f = Inl e"
  then show "cumsum ext f m = (Inl e, f)"
    by (simp add: cumsum_def)
next
  assume a: "cumsum_check f = Inr ind"
  note b = cumsum_check_bounds [OF a]
  show "if even (length (coeffs f))
       then length (coeffs f) div 2 < length (coeffs f) \<and>
            snd (cumsum ext f m) =
              f\<lparr>coeffs := (coeffs f)
                   [length (coeffs f) div 2 := map (\<lambda>_. 0) (coeffs f ! (length (coeffs f) div 2)),
                    0 := map (\<lambda>z. (1 / 2) * z) (coeffs f ! 0)]\<rparr>
       else (length (coeffs f) + 1) div 2 < length (coeffs f) \<and>
            snd (cumsum ext f m) =
              f\<lparr>coeffs := (coeffs f)
                   [(length (coeffs f) + 1) div 2 :=
                      map (\<lambda>_. 0) (coeffs f ! ((length (coeffs f) + 1) div 2))]\<rparr>"
  proof (cases "even (length (coeffs f))")
    case True
    with b have "0 < length (coeffs f) div 2" "length (coeffs f) div 2 < length (coeffs f)"
      by simp_all
    with True show ?thesis
      by (simp add: cumsum_def a cumsum_inplace_def zero_row_def Let_def)
  next
    case False
    then have nz: "length (coeffs f) mod 2 \<noteq> 0"
      by (simp add: even_iff_mod_2_eq_zero)
    from False b have "(length (coeffs f) + 1) div 2 < length (coeffs f)"
      by simp
    with False show ?thesis
      by (simp add: cumsum_def a cumsum_inplace_def zero_row_def Let_def nz)
  qed
qed

text \<open>
  C9 at an even length, where rows \<open>2\<close> and \<open>0\<close> change, at an odd length, and at
  length one, where the call raises.
\<close>

theorem cumsum_writes_into_input_witness:
  "cumsum_check t_even = Inr 3 \<and>
   snd (cumsum ext0 t_even 1) = t_even\<lparr>coeffs := [[1], [0], [0], [0]]\<rparr> \<and>
   cumsum_check t_exp = Inr 2 \<and>
   snd (cumsum ext0 t_exp 1) = t_exp\<lparr>coeffs := [[1], [0], [0]]\<rparr> \<and>
   cumsum_check t_i = Inl IndexError \<and> cumsum ext0 t_i 1 = (Inl IndexError, t_i)"
proof -
  have 1: "cumsum_check t_even = Inr 3"
    by (simp add: t_even_eq cumsum_check_def)
  have 2: "cumsum_check t_exp = Inr 2"
    by (simp add: t_exp_eq cumsum_check_def)
  have 3: "cumsum_check t_i = Inl IndexError"
    by (simp add: t_i_eq cumsum_check_def)
  have 4: "coeffs t_even = [[2], [0], [3], [0]]" "coeffs t_exp = [[1], [0], [0]]"
    by (simp_all add: t_even_eq t_exp_eq)
  show ?thesis
    using cumsum_writes_into_input [of t_even IndexError ext0 1 3]
          cumsum_writes_into_input [of t_exp IndexError ext0 1 2]
          cumsum_writes_into_input [of t_i IndexError ext0 1 0]
    by (simp add: 1 2 3 4)
qed

subsection \<open>The constructor from coefficients succeeds on well-shaped input\<close>

lemma rect_zero_cols: "rect n 0 c \<Longrightarrow> c = replicate n []"
  by (auto simp: rect_def list_all_iff intro!: replicate_eqI)

lemma rect_unique_zero: "rect n 0 c \<Longrightarrow> rect n 0 d \<Longrightarrow> c = d"
  using rect_zero_cols [of n c] rect_zero_cols [of n d] by simp

lemma concat_rect_zero: "rect n 0 c \<Longrightarrow> concat c = []"
  by (auto simp: rect_def list_all_iff)

lemma concat_rect_empty: "rect n m c \<Longrightarrow> 0 < n \<Longrightarrow> concat c = [] \<Longrightarrow> m = 0"
  by (cases c) (auto simp: rect_def)

lemma foldl_map2_max_length:
  "length xs = m \<Longrightarrow> list_all (\<lambda>r. length r = m) yss
     \<Longrightarrow> length (foldl (map2 max) xs yss) = m"
  by (induction yss arbitrary: xs) simp_all

lemma col_max_rect:
  assumes "rect n m a" and "0 < n"
  shows "\<exists>mx. col_max g a = Inr mx \<and> length mx = m"
proof (cases a)
  case Nil
  with assms show ?thesis by (simp add: rect_def)
next
  case (Cons r rs)
  with assms have "length (map g r) = m" "list_all (\<lambda>r. length r = m) (map (map g) rs)"
    by (simp_all add: rect_def list_all_iff)
  then have "length (foldl (map2 max) (map g r) (map (map g) rs)) = m"
    by (rule foldl_map2_max_length)
  with Cons show ?thesis by (simp add: col_max_def)
qed

lemma get_vscale_rect:
  assumes "rect n m (coeffs self)" and "0 < n" and "shape_preserving (coeffs2vals ext)"
  shows "\<exists>vs. get_vscale ext self = Inr vs \<and> (if m = 0 then length vs = 1 else length vs = m)"
proof (cases "m = 0")
  case True
  with assms(1) have "concat (coeffs self) = []"
    by (simp add: concat_rect_zero del: concat_eq_Nil_conv)
  with True show ?thesis by (simp add: get_vscale_def del: concat_eq_Nil_conv)
next
  case False
  with assms(1,2) have ne: "concat (coeffs self) \<noteq> []"
    by (auto dest: concat_rect_empty)
  show ?thesis
  proof (cases "length (coeffs self) = 1")
    case True
    with assms(1) have "length (hd (coeffs self)) = m"
      by (cases "coeffs self") (simp_all add: rect_def)
    with True ne False show ?thesis by (simp add: get_vscale_def del: concat_eq_Nil_conv)
  next
    case f: False
    from assms(1,3) have "rect n m (coeffs2vals ext (coeffs self))"
      by (simp add: shape_preserving_def)
    from col_max_rect [OF this assms(2)] ne f False show ?thesis
      by (simp add: get_vscale_def del: concat_eq_Nil_conv)
  qed
qed

lemma get_isreal_rect:
  assumes "rect n m (vals self)" and "0 < n"
    and "if m = 0 then length vscl = 1 else length vscl = m"
  shows "\<exists>fl. get_isreal self vscl = Inr fl \<and> length fl = m"
proof -
  from col_max_rect [OF assms(1,2)] obtain mx where
    mx: "col_max (\<lambda>z. \<bar>Im z\<bar>) (vals self) = Inr mx" "length mx = m"
    by blast
  show ?thesis
  proof (cases "m = 0")
    case True
    with assms(3) mx have "bcast2 (\<lambda>a v. a \<le> 3 * eps self * v) mx vscl = Inr []"
      by (simp add: bcast2_def)
    with mx True show ?thesis by (simp add: get_isreal_def)
  next
    case False
    with assms(3) mx have
      "bcast2 (\<lambda>a v. a \<le> 3 * eps self * v) mx vscl
         = Inr (map2 (\<lambda>a v. a \<le> 3 * eps self * v) mx vscl)"
      by (simp add: bcast2_def)
    with mx assms(3) False show ?thesis by (simp add: get_isreal_def)
  qed
qed

lemma force_real_rect:
  assumes "rect n m a" and "length fl = m"
  shows "\<exists>v. force_real a fl = Inr v \<and> rect n m v"
  using assms by (auto simp: force_real_def rect_def list_all_iff)

lemma of_coeffs_arrays_rect:
  assumes c: "rect n m c" and n: "0 < n"
    and c2v: "shape_preserving (coeffs2vals ext)" and v2c: "shape_preserving (vals2coeffs ext)"
  shows "coeffs (of_coeffs_arrays ext c kw) = c"
    and "vals (of_coeffs_arrays ext c kw) = coeffs2vals ext c"
    and "ishappy (of_coeffs_arrays ext c kw)"
proof -
  have v: "rect n m (coeffs2vals ext c)"
    using c c2v by (simp add: shape_preserving_def)
  have e: "vals2coeffs ext (coeffs2vals ext c) = c" if "concat c = []"
  proof -
    from that c n have "m = 0"
      by (rule_tac concat_rect_empty)
    with v v2c have "rect n 0 (vals2coeffs ext (coeffs2vals ext c))"
      by (simp add: shape_preserving_def)
    with c \<open>m = 0\<close> show ?thesis
      by (auto intro: rect_unique_zero)
  qed
  show "coeffs (of_coeffs_arrays ext c kw) = c"
    using e by (simp add: of_coeffs_arrays_def trigtech_base_def Let_def
        del: concat_eq_Nil_conv)
  show "vals (of_coeffs_arrays ext c kw) = coeffs2vals ext c"
    by (simp add: of_coeffs_arrays_def trigtech_base_def Let_def del: concat_eq_Nil_conv)
  show "ishappy (of_coeffs_arrays ext c kw)"
    by (simp add: of_coeffs_arrays_def Let_def)
qed

lemma mark_real_rect:
  assumes "rect n m (coeffs self)" and "rect n m (vals self)" and "0 < n"
    and "shape_preserving (coeffs2vals ext)"
  shows "\<exists>fl v. mark_real ext self = Inr (self\<lparr>isReal := fl, vals := v\<rparr>) \<and>
               length fl = m \<and> rect n m v"
proof -
  from get_vscale_rect [OF assms(1,3,4)] obtain vs where
    vs: "get_vscale ext self = Inr vs" "if m = 0 then length vs = 1 else length vs = m"
    by blast
  then have "if m = 0 then length (map (max (vscale self)) vs) = 1
             else length (map (max (vscale self)) vs) = m"
    by simp
  from get_isreal_rect [OF assms(2,3) this] obtain fl where
    fl: "get_isreal self (map (max (vscale self)) vs) = Inr fl" "length fl = m"
    by blast
  from force_real_rect [OF assms(2) fl(2)] obtain v where
    v: "force_real (vals self) fl = Inr v" "rect n m v"
    by blast
  have "mark_real ext self = Inr (self\<lparr>isReal := fl, vals := v\<rparr>)"
    by (simp add: mark_real_def vs(1) fl(1) v(1))
  with fl(2) v(2) show ?thesis by blast
qed

lemma trigtech_of_coeffs_rect:
  assumes c: "rect n m c" and n: "0 < n"
    and c2v: "shape_preserving (coeffs2vals ext)" and v2c: "shape_preserving (vals2coeffs ext)"
  shows "\<exists>g. trigtech_of_coeffs ext c kw = Inr g \<and> coeffs g = c \<and> ishappy g \<and>
             rect n m (vals g) \<and> length (isReal g) = m"
proof -
  note a = of_coeffs_arrays_rect [OF assms, of kw]
  have v: "rect n m (coeffs2vals ext c)"
    using c c2v by (simp add: shape_preserving_def)
  from mark_real_rect [of n m "of_coeffs_arrays ext c kw" ext] a c v n c2v
  obtain fl w where
    "mark_real ext (of_coeffs_arrays ext c kw)
       = Inr ((of_coeffs_arrays ext c kw)\<lparr>isReal := fl, vals := w\<rparr>)"
    "length fl = m" "rect n m w"
    by auto
  with a show ?thesis
    by (simp add: trigtech_of_coeffs_def)
qed

subsection \<open>Differentiation\<close>

lemma map2_nth:
  "length xs = length ys \<Longrightarrow> map2 f xs ys = map (\<lambda>j. f (xs ! j) (ys ! j)) [0..<length xs]"
  by (rule nth_equalityI) simp_all

lemma waveNumber_eq:
  "waveNumber n = map (\<lambda>j. real j - (if odd n then (real n - 1) / 2 else real n / 2)) [0..<n]"
proof (cases "odd n")
  case True
  then obtain k where k: "n = 2 * k + 1"
    by (auto elim: oddE)
  have "\<lceil>real n / 2 + (real n - 1) / 2\<rceil> = int n"
    unfolding k by (simp add: ceiling_eq_iff field_simps)
  with True show ?thesis
    by (simp add: waveNumber_def arange_def algebra_simps)
next
  case False
  then show ?thesis
    by (simp add: waveNumber_def arange_def algebra_simps)
qed

lemma diff_coeffs_eq:
  "diff_coeffs c order =
     map (\<lambda>j. map (\<lambda>z. z * (\<i> * complex_of_real pi *
                complex_of_real (real j - (if odd (length c) then (real (length c) - 1) / 2
                                           else real (length c) / 2))) ^ order) (c ! j))
         [0..<length c]"
  by (simp add: diff_coeffs_def scale_rows_def waveNumber_eq map2_nth del: of_real_diff)

lemma rect_diff_coeffs: "rect n m c \<Longrightarrow> rect n m (diff_coeffs c order)"
  by (simp add: diff_coeffs_eq rect_def list_all_iff del: of_real_diff)

text \<open>
  C6, as the code has it. For a representation \<open>f\<close> of length \<open>n > 0\<close> and every order,
  \<open>diff\<close> returns a new representation whose row \<open>j\<close> is row \<open>j\<close> of \<open>f\<close> times
  \<open>(i pi k)^order\<close> with \<open>k = j - (n - 1) / 2\<close> for odd \<open>n\<close> and \<open>k = j - n / 2\<close> for even
  \<open>n\<close>, and it is marked happy. The transforms are assumed to keep the shape.
\<close>

theorem diff_scales_by_wavenumbers:
  assumes "rect n m (coeffs f)" and "0 < n"
    and "shape_preserving (coeffs2vals ext)" and "shape_preserving (vals2coeffs ext)"
  shows "\<exists>g. diff ext f order = Inr g \<and> ishappy g \<and>
             coeffs g =
               map (\<lambda>j. map (\<lambda>z. z * (\<i> * complex_of_real pi *
                          complex_of_real (real j - (if odd n then (real n - 1) / 2
                                                     else real n / 2))) ^ order)
                              (coeffs f ! j))
                   [0..<n]"
proof -
  from assms(1) have n: "length (coeffs f) = n"
    by (simp add: rect_def)
  from trigtech_of_coeffs_rect [OF rect_diff_coeffs [OF assms(1)] assms(2,3,4)]
  obtain g where "diff ext f order = Inr g" "coeffs g = diff_coeffs (coeffs f) order" "ishappy g"
    unfolding diff_def by blast
  then show ?thesis
    unfolding diff_coeffs_eq n by blast
qed

lemma shape_preserving_ext0:
  "shape_preserving (coeffs2vals ext0)" "shape_preserving (vals2coeffs ext0)"
  by (simp_all add: shape_preserving_def ext0_def)

text \<open>
  C6 at the exponential of length three and at a representation of length four, for
  the first derivative: the wavenumbers of the first rows are \<open>-1\<close> and \<open>-2\<close>.
\<close>

theorem diff_scales_by_wavenumbers_witness:
  "rect 3 1 (coeffs t_exp) \<and> rect 4 1 (coeffs t_even) \<and>
   shape_preserving (coeffs2vals ext0) \<and> shape_preserving (vals2coeffs ext0) \<and>
   (\<exists>g. diff ext0 t_exp 1 = Inr g \<and> ishappy g \<and> coeffs g = [[- (\<i> * pi)], [0], [0]]) \<and>
   (\<exists>g. diff ext0 t_even 1 = Inr g \<and> ishappy g \<and>
        coeffs g = [[- (4 * (\<i> * pi))], [0], [0], [0]])"
proof -
  have r: "rect 3 1 (coeffs t_exp)" "rect 4 1 (coeffs t_even)"
    by (simp_all add: t_exp_eq t_even_eq rect_def)
  have c: "coeffs t_exp = [[1], [0], [0]]" "coeffs t_even = [[2], [0], [3], [0]]"
    by (simp_all add: t_exp_eq t_even_eq)
  show ?thesis
    using diff_scales_by_wavenumbers [OF r(1) _ shape_preserving_ext0, of 1]
          diff_scales_by_wavenumbers [OF r(2) _ shape_preserving_ext0, of 1]
    by (simp add: c shape_preserving_ext0 upt_rec rect_def)
qed

subsection \<open>The inner product as a weighted sum\<close>

lemma transpose_rect:
  assumes "rect n m a" and "0 < n"
  shows "transpose a = map (\<lambda>i. map (\<lambda>x. a ! x ! i) [0..<n]) [0..<m]"
proof -
  from assms have "a = [] \<Longrightarrow> m = 0" "\<And>i. i < length a \<Longrightarrow> length (a ! i) = m" "length a = n"
    by (auto simp: rect_def list_all_iff)
  from transpose_rectangle [OF this(1,2)] this(3) show ?thesis
    by simp
qed

lemma sum_list_map2_nth:
  assumes "length xs = length ys"
  shows "sum_list (map2 f xs ys) = (\<Sum>x<length xs. f (xs ! x) (ys ! x))"
proof -
  have "sum_list (map2 f xs ys) = sum_list (map (\<lambda>j. f (xs ! j) (ys ! j)) [0..<length xs])"
    by (simp only: map2_nth [OF assms])
  also have "\<dots> = (\<Sum>x<length xs. f (xs ! x) (ys ! x))"
    by (simp add: interv_sum_list_conv_sum_set_nat atLeast0LessThan)
  finally show ?thesis .
qed

lemma list_all_map2_conj:
  "length xs = length ys \<Longrightarrow> list_all id (map2 (\<and>) xs ys) = (list_all id xs \<and> list_all id ys)"
  by (induction xs ys rule: list_induct2) auto

lemma bcast2_conj:
  assumes "length a = length b \<or> (length a = 1 \<and> b \<noteq> []) \<or> (length b = 1 \<and> a \<noteq> [])"
  shows "\<exists>fl. bcast2 (\<and>) a b = Inr fl \<and> list_all id fl = (list_all id a \<and> list_all id b)"
proof (cases "length a = length b")
  case True
  then show ?thesis
    by (simp add: bcast2_def list_all_map2_conj)
next
  case False
  with assms consider "length a = 1" "b \<noteq> []" | "length b = 1" "a \<noteq> []" "length a \<noteq> 1"
    by auto
  then show ?thesis
  proof cases
    case 1
    then obtain a0 where "a = [a0]"
      by (cases a) simp_all
    with 1 False show ?thesis
      by (cases b) (auto simp: bcast2_def list_all_iff)
  next
    case 2
    then obtain b0 where "b = [b0]"
      by (cases b) simp_all
    with 2 False show ?thesis
      by (cases a) (auto simp: bcast2_def list_all_iff)
  qed
qed

text \<open>
  C7, as the code has it. When the external prolongation returns values on \<open>n\<close> grid
  points, \<open>n\<close> the sum of the two lengths, and there are \<open>n\<close> quadrature weights, the
  inner product is the matrix with entry \<open>(i, j)\<close> the sum over the grid of
  \<open>w(x) * f_i(x) * conj(g_j(x))\<close>: the conjugate is on the second operand. The real flags
  of the operands must be as many, or one of them a single flag; the result is then made
  real exactly when all flags of both operands are set.
\<close>

theorem inner_weighted_sum:
  assumes n: "n = length (coeffs f) + length (coeffs g)" "0 < n"
    and fv: "fv = snd (ts_prolong ext (coeffs f) n (isReal f))" "rect n m1 fv"
    and gv: "gv = snd (ts_prolong ext (coeffs g) n (isReal g))" "rect n m2 gv"
    and w: "w = quadwts ext n" "length w = n"
    and flags: "length (isReal f) = length (isReal g) \<or>
                (length (isReal f) = 1 \<and> isReal g \<noteq> []) \<or>
                (length (isReal g) = 1 \<and> isReal f \<noteq> [])"
  shows "inner ext f g =
           Inr (map (\<lambda>i. map (\<lambda>j.
                  (if list_all id (isReal f) \<and> list_all id (isReal g)
                   then (\<lambda>z. complex_of_real (Re z)) else (\<lambda>z. z))
                    (\<Sum>x<n. fv ! x ! i * complex_of_real (w ! x) * cnj (gv ! x ! j)))
                [0..<m2]) [0..<m1])"
proof -
  let ?fw = "map (\<lambda>i. map (\<lambda>x. fv ! x ! i * complex_of_real (w ! x)) [0..<n]) [0..<m1]"
  let ?out = "map (\<lambda>i. map (\<lambda>j. (\<Sum>x<n. fv ! x ! i * complex_of_real (w ! x) * cnj (gv ! x ! j)))
                [0..<m2]) [0..<m1]"
  have lf: "length fv = n"
    using fv(2) by (simp add: rect_def)
  have tf: "transpose fv = map (\<lambda>i. map (\<lambda>x. fv ! x ! i) [0..<n]) [0..<m1]"
    by (rule transpose_rect [OF fv(2) n(2)])
  have "map (\<lambda>row. map2 (\<lambda>z x. z * complex_of_real x) row w) (transpose fv) = ?fw"
    unfolding tf by (simp add: map2_nth w(2))
  then have tw: "times_weights (length fv) (transpose fv) w = Inr (?fw, n)"
    by (simp add: times_weights_def lf w(2))
  have cg: "rect n m2 (map (map cnj) gv)"
    using gv(2) by (simp add: rect_def list_all_iff)
  have tg: "transpose (map (map cnj) gv) = map (\<lambda>j. map (\<lambda>x. cnj (gv ! x ! j)) [0..<n]) [0..<m2]"
  proof -
    have "map (\<lambda>j. map (\<lambda>x. map (map cnj) gv ! x ! j) [0..<n]) [0..<m2]
            = map (\<lambda>j. map (\<lambda>x. cnj (gv ! x ! j)) [0..<n]) [0..<m2]"
      using gv(2) by (auto simp: rect_def list_all_iff)
    with transpose_rect [OF cg n(2)] show ?thesis by simp
  qed
  have "map (\<lambda>row. map (\<lambda>col. sum_list (map2 (*) row col)) (transpose (map (map cnj) gv))) ?fw
          = ?out"
    unfolding tg by (simp add: sum_list_map2_nth)
  then have mm: "matmul ?fw n (map (map cnj) gv) = Inr ?out"
    using gv(2) by (simp add: matmul_def rect_def)
  from bcast2_conj [OF flags] obtain fl where
    fl: "bcast2 (\<and>) (isReal f) (isReal g) = Inr fl"
        "list_all id fl = (list_all id (isReal f) \<and> list_all id (isReal g))"
    by blast
  have "inner ext f g =
          Inr (if list_all id (isReal f) \<and> list_all id (isReal g)
               then map (map (\<lambda>z. complex_of_real (Re z))) ?out else ?out)"
    unfolding inner_def Let_def
    unfolding n(1) [symmetric] fv(1) [symmetric] gv(1) [symmetric] w(1) [symmetric]
    by (simp add: tw mm fl)
  then show ?thesis
    by (simp add: comp_def)
qed

text \<open>
  C7 at constants: the inner product of \<open>i\<close> and \<open>1\<close> is \<open>2 i\<close>, not real; the inner
  product of \<open>1\<close> with itself is made real.
\<close>

theorem inner_weighted_sum_witness:
  "rect 2 1 (snd (ts_prolong ext0 (coeffs t_i) 2 (isReal t_i))) \<and>
   rect 2 1 (snd (ts_prolong ext0 (coeffs t_one) 2 (isReal t_one))) \<and>
   length (quadwts ext0 2) = 2 \<and> length (isReal t_i) = length (isReal t_one) \<and>
   inner ext0 t_i t_one = Inr [[2 * \<i>]] \<and> inner ext0 t_one t_one = Inr [[2]]"
proof -
  have c: "coeffs t_i = [[\<i>]]" "coeffs t_one = [[1]]" "isReal t_i = [False]"
    "isReal t_one = [True]"
    by (simp_all add: t_i_eq t_one_eq)
  have p: "snd (ts_prolong ext0 [[\<i>]] 2 r) = [[\<i>], [\<i>]]"
    "snd (ts_prolong ext0 [[1]] 2 r) = [[1], [1]]" "quadwts ext0 2 = [1, 1]" for r
    by (simp_all add: ext0_def numeral_2_eq_2)
  note q = p [unfolded numeral_2_eq_2]
  have 1: "2 = length (coeffs t_i) + length (coeffs t_one)"
    "2 = length (coeffs t_one) + length (coeffs t_one)"
    by (simp_all add: c)
  have r: "rect 2 1 (snd (ts_prolong ext0 (coeffs t_i) 2 (isReal t_i)))"
    "rect 2 1 (snd (ts_prolong ext0 (coeffs t_one) 2 (isReal t_one)))"
    by (simp_all add: c p rect_def)
  have w: "length (quadwts ext0 2) = 2"
    by (simp add: p)
  have "inner ext0 t_i t_one = Inr [[2 * \<i>]]"
    using inner_weighted_sum [OF 1(1) _ refl r(1) refl r(2) refl w]
    by (simp add: c q upt_rec lessThan_Suc numeral_2_eq_2)
  moreover have "inner ext0 t_one t_one = Inr [[2]]"
    using inner_weighted_sum [OF 1(2) _ refl r(2) refl r(2) refl w]
    by (simp add: c q upt_rec lessThan_Suc numeral_2_eq_2)
  ultimately show ?thesis
    using r w by (simp add: c)
qed

subsection \<open>Construction from a callable that is never resolved\<close>










lemma populate_unbound:
  assumes "snd (refine 0 self)"
  shows "populate ext refine self = Some (Inl UnboundLocalError)"
  unfolding populate_def
  by (subst populate_loop.simps) (simp add: assms)




end
